theory Spec2Isabelle
  imports Main
begin

section \<open>FramelessWindow: data model\<close>

text \<open>
  The embedding follows \<^verbatim>\<open>src/FramelessWindow/frameless_window.py\<close>. A Python object
  with mutable attributes is a record that each method takes and returns updated. Toolkit
  calls are modelled by the attribute they set: \<^verbatim>\<open>setWindowTitle\<close> sets the title,
  \<^verbatim>\<open>setCursor\<close>/\<^verbatim>\<open>unsetCursor\<close> set or clear the cursor, \<^verbatim>\<open>setEnabled\<close> sets the enabled
  flag. Pointer positions are the integer points obtained by
  \<^verbatim>\<open>event.position().toPoint()\<close>.
\<close>

definition RESIZE_MARGIN :: int where
  "RESIZE_MARGIN = 8"

text \<open>\<^verbatim>\<open>Qt.Edges\<close>: a flag set over the four window edges; \<^verbatim>\<open>Qt.Edges()\<close> is the empty set
  and \<^verbatim>\<open>|=\<close> adds an edge.\<close>

datatype edge = TopEdge | LeftEdge | RightEdge | BottomEdge

datatype cursor_shape = SizeHorCursor | SizeVerCursor | SizeFDiagCursor | SizeBDiagCursor

datatype mouse_button = LeftButton | RightButton | MiddleButton | OtherButton

text \<open>What \<^verbatim>\<open>setTitleBar\<close> may have stored: a \<^verbatim>\<open>TitleBar\<close> with its label text, or some
  other widget that has no \<^verbatim>\<open>setTitle\<close> method.\<close>

datatype title_bar_widget = TitleBar (title_label: string) | PlainWidget

record window =
  app_name :: string
  window_title :: string
  application_name :: string
  application_display_name :: string
  isMaximized :: bool
  width :: int
  height :: int
  resize_edges :: "edge set"
  cursor :: "cursor_shape option"
  title_bar :: "title_bar_widget option"
  app_user_model_id :: "string option"

section \<open>Resize handling\<close>

text \<open>Lines 104 to 113 of \<^verbatim>\<open>mouseMoveEvent\<close>: the four margin tests, each adding its edge.\<close>

definition detect_edges :: "int \<Rightarrow> int \<Rightarrow> int \<Rightarrow> int \<Rightarrow> edge set" where
  "detect_edges w h x y =
     (let edges = {};
          edges = (if x \<le> RESIZE_MARGIN then edges \<union> {LeftEdge} else edges);
          edges = (if x \<ge> w - RESIZE_MARGIN then edges \<union> {RightEdge} else edges);
          edges = (if y \<le> RESIZE_MARGIN then edges \<union> {TopEdge} else edges);
          edges = (if y \<ge> h - RESIZE_MARGIN then edges \<union> {BottomEdge} else edges)
      in edges)"

text \<open>Lines 117 to 126: the \<^verbatim>\<open>if\<close>/\<^verbatim>\<open>elif\<close> chain from the edge set to the cursor;
  \<open>None\<close> is \<^verbatim>\<open>unsetCursor()\<close>, the default cursor.\<close>

definition cursor_for :: "edge set \<Rightarrow> cursor_shape option" where
  "cursor_for edges =
     (if edges = {LeftEdge} \<or> edges = {RightEdge} then Some SizeHorCursor
      else if edges = {TopEdge} \<or> edges = {BottomEdge} then Some SizeVerCursor
      else if edges = {TopEdge, LeftEdge} \<or> edges = {BottomEdge, RightEdge}
        then Some SizeFDiagCursor
      else if edges = {TopEdge, RightEdge} \<or> edges = {BottomEdge, LeftEdge}
        then Some SizeBDiagCursor
      else None)"

definition mouseMoveEvent :: "window \<Rightarrow> int \<times> int \<Rightarrow> window" where
  "mouseMoveEvent self pos =
     (if isMaximized self then self\<lparr>cursor := None\<rparr>
      else
        (let edges = detect_edges (width self) (height self) (fst pos) (snd pos)
         in self\<lparr>resize_edges := edges, cursor := cursor_for edges\<rparr>))"

text \<open>The two ways a press ends: the window handle's \<^verbatim>\<open>startSystemResize\<close> with the
  stored edges, or the base class's \<^verbatim>\<open>mousePressEvent\<close>. The press is delivered to a
  shown window, whose \<^verbatim>\<open>windowHandle()\<close> exists.\<close>

datatype press_action = StartSystemResize "edge set" | DefaultPress

definition mousePressEvent :: "window \<Rightarrow> mouse_button \<Rightarrow> press_action" where
  "mousePressEvent self button =
     (if button = LeftButton \<and> resize_edges self \<noteq> {} \<and> \<not> isMaximized self
      then StartSystemResize (resize_edges self)
      else DefaultPress)"

text \<open>\<^verbatim>\<open>TitleBar.toggle_maximize\<close>, the way the maximized state changes.\<close>

definition toggle_maximize :: "window \<Rightarrow> window" where
  "toggle_maximize self = self\<lparr>isMaximized := (if isMaximized self then False else True)\<rparr>"

text \<open>The pointer and title-bar events a window receives, and a run of them.\<close>

datatype window_event = MouseMove "int \<times> int" | ToggleMaximize

fun window_step :: "window \<Rightarrow> window_event \<Rightarrow> window" where
  "window_step self (MouseMove pos) = mouseMoveEvent self pos"
| "window_step self ToggleMaximize = toggle_maximize self"

definition window_run :: "window \<Rightarrow> window_event list \<Rightarrow> window" where
  "window_run self evs = foldl window_step self evs"

text \<open>The window as \<^verbatim>\<open>__init__\<close> builds it, before the grouping call and at a given
  size: the name is \<^verbatim>\<open>app_name or "Application"\<close>, there are no edges and no title bar,
  and the window is not maximized.\<close>

definition init_window :: "string option \<Rightarrow> int \<Rightarrow> int \<Rightarrow> window" where
  "init_window name w h =
     (let name = (case name of None \<Rightarrow> ''Application''
                   | Some n \<Rightarrow> if n = [] then ''Application'' else n)
      in \<lparr>app_name = name, window_title = name, application_name = name,
          application_display_name = name, isMaximized = False, width = w, height = h,
          resize_edges = {}, cursor = None, title_bar = None, app_user_model_id = None\<rparr>)"

text \<open>The margins named by the specification: the pointer is within the margin of an edge
  when the corresponding test of \<^verbatim>\<open>mouseMoveEvent\<close> holds.\<close>

fun within_margin :: "int \<Rightarrow> int \<Rightarrow> int \<Rightarrow> int \<Rightarrow> edge \<Rightarrow> bool" where
  "within_margin w h x y LeftEdge = (x \<le> 8)"
| "within_margin w h x y RightEdge = (x \<ge> w - 8)"
| "within_margin w h x y TopEdge = (y \<le> 8)"
| "within_margin w h x y BottomEdge = (y \<ge> h - 8)"

definition margin_edges :: "int \<Rightarrow> int \<Rightarrow> int \<Rightarrow> int \<Rightarrow> edge set" where
  "margin_edges w h x y = {e. within_margin w h x y e}"

definition adjacent :: "edge \<Rightarrow> edge \<Rightarrow> bool" where
  "adjacent a b = ((a \<in> {LeftEdge, RightEdge} \<and> b \<in> {TopEdge, BottomEdge}) \<or>
                   (a \<in> {TopEdge, BottomEdge} \<and> b \<in> {LeftEdge, RightEdge}))"

definition directional_cursor :: "edge \<Rightarrow> cursor_shape" where
  "directional_cursor e = (if e \<in> {LeftEdge, RightEdge} then SizeHorCursor else SizeVerCursor)"

definition diagonal_cursor :: "edge \<Rightarrow> edge \<Rightarrow> cursor_shape" where
  "diagonal_cursor a b =
     (if {a, b} = {TopEdge, LeftEdge} \<or> {a, b} = {BottomEdge, RightEdge}
      then SizeFDiagCursor else SizeBDiagCursor)"

section \<open>Application identity\<close>

text \<open>What a call can raise: an instance of \<^verbatim>\<open>Exception\<close> (by its class name), or
  something that only derives from \<^verbatim>\<open>BaseException\<close> (a keyboard interrupt).\<close>

datatype raised = ExceptionInstance string | BaseExceptionOnly string

text \<open>\<^verbatim>\<open>hasattr(self._title_bar, "setTitle")\<close> and the call \<^verbatim>\<open>self._title_bar.setTitle(name)\<close>
  on whatever the attribute holds: on \<^verbatim>\<open>None\<close> or on a widget without the method the call
  raises \<^verbatim>\<open>AttributeError\<close>; on a \<^verbatim>\<open>TitleBar\<close> it sets the label text (line 294).\<close>

fun hasattr_setTitle :: "title_bar_widget option \<Rightarrow> bool" where
  "hasattr_setTitle (Some (TitleBar _)) = True"
| "hasattr_setTitle (Some PlainWidget) = False"
| "hasattr_setTitle None = False"

fun call_setTitle :: "title_bar_widget option \<Rightarrow> string \<Rightarrow> raised + title_bar_widget option" where
  "call_setTitle (Some (TitleBar _)) title = Inr (Some (TitleBar title))"
| "call_setTitle (Some PlainWidget) title = Inl (ExceptionInstance ''AttributeError'')"
| "call_setTitle None title = Inl (ExceptionInstance ''AttributeError'')"

definition setAppName :: "window \<Rightarrow> string \<Rightarrow> raised + window" where
  "setAppName self name =
     (let self = self\<lparr>app_name := name\<rparr>;
          self = self\<lparr>window_title := name\<rparr>;
          self = self\<lparr>application_name := name\<rparr>;
          self = self\<lparr>application_display_name := name\<rparr>;
          self = self\<lparr>window_title := name\<rparr>
      in if title_bar self \<noteq> None \<and> hasattr_setTitle (title_bar self)
         then (case call_setTitle (title_bar self) name of
                 Inl e \<Rightarrow> Inl e
               | Inr tb \<Rightarrow> Inr (self\<lparr>title_bar := tb\<rparr>))
         else Inr self)"

text \<open>
  \<^verbatim>\<open>_apply_windows_app_id\<close>. What lies outside the repository is a parameter: \<open>lower\<close> is
  Python's \<^verbatim>\<open>str.lower\<close>, \<open>platform\<close> is \<^verbatim>\<open>sys.platform\<close>, and \<open>shell32\<close> is the outcome of
  \<^verbatim>\<open>ctypes.windll.shell32.SetCurrentProcessExplicitAppUserModelID(app_id)\<close>: it returns an
  HRESULT or raises. \<^verbatim>\<open>except Exception\<close> catches the instances of \<^verbatim>\<open>Exception\<close> and lets the rest
  through. The field
  \<open>app_user_model_id\<close> holds the identifier handed to the platform by a call that returned.
\<close>

datatype call_outcome = CallReturns int | CallRaises raised

definition replace_spaces :: "string \<Rightarrow> string" where
  "replace_spaces s = filter (\<lambda>c. c \<noteq> CHR '' '') s"

definition make_app_id :: "(string \<Rightarrow> string) \<Rightarrow> string \<Rightarrow> string" where
  "make_app_id lower name = ''com.projectironman.'' @ replace_spaces (lower name)"

definition apply_windows_app_id ::
  "(string \<Rightarrow> string) \<Rightarrow> string \<Rightarrow> (string \<Rightarrow> call_outcome) \<Rightarrow> window \<Rightarrow> raised + window" where
  "apply_windows_app_id lower platform shell32 self =
     (if platform \<noteq> ''win32'' then Inr self
      else
        (let safe_name = replace_spaces (lower (app_name self));
             app_id = ''com.projectironman.'' @ safe_name
         in case shell32 app_id of
              CallReturns hr \<Rightarrow> Inr (self\<lparr>app_user_model_id := Some app_id\<rparr>)
            | CallRaises (ExceptionInstance e) \<Rightarrow> Inr self
            | CallRaises (BaseExceptionOnly e) \<Rightarrow> Inl (BaseExceptionOnly e)))"

text \<open>\<^verbatim>\<open>str.lower\<close> on ASCII text, to run the function on concrete names.\<close>

definition ascii_lower :: "string \<Rightarrow> string" where
  "ascii_lower s =
     map (\<lambda>c. if (65::nat) \<le> of_char c \<and> of_char c \<le> (90::nat)
             then char_of (of_char c + (32::nat)) else c) s"

section \<open>FramelessDialog\<close>

text \<open>
  The dialog's own attributes (\<^verbatim>\<open>_event_loop\<close>, \<^verbatim>\<open>_result\<close>, \<^verbatim>\<open>_parent\<close>,
  \<^verbatim>\<open>_previous_focus\<close>) together with the toolkit state its methods read and write: whether
  the dialog is shown, the widgets \<^verbatim>\<open>findChildren(QWidget)\<close> returns (in that order), the
  widget \<^verbatim>\<open>QApplication.focusWidget()\<close> reports, the enabled flag of the parent, and the exit
  flag of the event loop that \<^verbatim>\<open>finished\<close> is connected to. A widget object is identified
  by a number. Three counters record the event loops: how many were constructed, how many
  are inside \<^verbatim>\<open>QEventLoop.exec()\<close> now, and the largest number that ever were at once.
\<close>

definition REJECTED :: int where
  "REJECTED = 0"

definition ACCEPTED :: int where
  "ACCEPTED = 1"

datatype focus_policy = NoFocus | TabFocus | ClickFocus | StrongFocus | WheelFocus

record widget =
  wid :: nat
  isVisible :: bool
  focusPolicy :: focus_policy

record dialog =
  event_loop :: "nat option"
  result :: int
  parent :: "nat option"
  previous_focus :: "nat option"
  shown :: bool
  children :: "widget list"
  focus_widget :: "nat option"
  parent_enabled :: bool
  loop_quit :: bool
  loops_created :: nat
  loops_running :: nat
  loops_peak :: nat

text \<open>
  Where the input focus goes is decided by Qt, outside the repository: disabling the parent
  takes the focus from a widget inside it, showing and activating a window moves it, and
  \<^verbatim>\<open>setFocus\<close> is ignored on a disabled widget or in a window that is not active. The calls of
  the dialog's methods that can move the focus are the values of \<open>toolkit_call\<close>, and a
  toolkit tells, for a call and the state it is made in, the widget
  \<^verbatim>\<open>QApplication.focusWidget()\<close> reports afterwards. The methods take the toolkit as a
  parameter; nothing is assumed of it.
\<close>

datatype toolkit_call = SetParentEnabled bool | ShowDialog | ActivateParent | SetFocus nat

type_synonym toolkit = "toolkit_call \<Rightarrow> dialog \<Rightarrow> nat option"

text \<open>Qt where it ignores the call, as it ignores \<^verbatim>\<open>setFocus\<close> on a disabled widget: the focus
  stays where it is.\<close>

definition focus_unmoved :: toolkit where
  "focus_unmoved c self = focus_widget self"

text \<open>The dialog as \<^verbatim>\<open>__init__\<close> leaves it, with the toolkit state around it.\<close>

definition init_dialog :: "nat option \<Rightarrow> widget list \<Rightarrow> nat option \<Rightarrow> bool \<Rightarrow> dialog" where
  "init_dialog p ws focus enabled =
     \<lparr>event_loop = None, result = REJECTED, parent = p, previous_focus = None, shown = False,
      children = ws, focus_widget = focus, parent_enabled = enabled, loop_quit = False,
      loops_created = 0, loops_running = 0, loops_peak = 0\<rparr>"

subsection \<open>Dialog control\<close>

text \<open>\<^verbatim>\<open>finished.emit(result)\<close>: the connected slot is the \<^verbatim>\<open>quit\<close> of the loop made by
  \<^verbatim>\<open>exec\<close>; with no loop in \<^verbatim>\<open>exec\<close> the signal reaches nothing that runs.\<close>

definition finished_emit :: "dialog \<Rightarrow> int \<Rightarrow> dialog" where
  "finished_emit self r = (if event_loop self \<noteq> None then self\<lparr>loop_quit := True\<rparr> else self)"

definition dialog_done :: "dialog \<Rightarrow> int \<Rightarrow> dialog" where
  "dialog_done self r =
     (let self = self\<lparr>result := r\<rparr>;
          self = self\<lparr>shown := False\<rparr>
      in finished_emit self r)"

definition accept :: "dialog \<Rightarrow> dialog" where
  "accept self = dialog_done self ACCEPTED"

definition reject :: "dialog \<Rightarrow> dialog" where
  "reject self = dialog_done self REJECTED"

text \<open>The dialog's \<^verbatim>\<open>closeEvent\<close>: \<^verbatim>\<open>reject()\<close>, then the event is accepted.\<close>

definition closeEvent :: "dialog \<Rightarrow> dialog" where
  "closeEvent self = reject self"

subsection \<open>Focus trap\<close>

text \<open>\<^verbatim>\<open>list.index\<close>: the first position of an element, \<open>None\<close> where Python raises
  \<^verbatim>\<open>ValueError\<close>.\<close>

fun index_of :: "'a list \<Rightarrow> 'a \<Rightarrow> nat option" where
  "index_of [] x = None"
| "index_of (y # ys) x = (if y = x then Some 0 else map_option Suc (index_of ys x))"

text \<open>The list built at lines 427 to 430: the children that are visible and whose focus
  policy is not \<^verbatim>\<open>NoFocus\<close>. Whether a child is enabled is not tested.\<close>

definition focusable_widgets :: "dialog \<Rightarrow> nat list" where
  "focusable_widgets self =
     map wid (filter (\<lambda>w. isVisible w \<and> focusPolicy w \<noteq> NoFocus) (children self))"

text \<open>\<^verbatim>\<open>w.setFocus(reason)\<close>: the call is made, and the toolkit decides where the focus is
  afterwards.\<close>

definition setFocus :: "toolkit \<Rightarrow> dialog \<Rightarrow> nat \<Rightarrow> dialog" where
  "setFocus qt self w = self\<lparr>focus_widget := qt (SetFocus w) self\<rparr>"

text \<open>\<^verbatim>\<open>_focus_next\<close>. The index arithmetic is Python's, on integers: \<^verbatim>\<open>(0 - 1) % n\<close> is
  \<^verbatim>\<open>n - 1\<close>. The \<^verbatim>\<open>ValueError\<close> of \<^verbatim>\<open>index\<close> is excluded by the membership test before it.\<close>

definition focus_next :: "toolkit \<Rightarrow> dialog \<Rightarrow> bool \<Rightarrow> dialog" where
  "focus_next qt self reverse =
     (let widgets = focusable_widgets self
      in if widgets = [] then self
         else
           (case focus_widget self of
              None \<Rightarrow> setFocus qt self (widgets ! 0)
            | Some current \<Rightarrow>
                if current \<notin> set widgets then setFocus qt self (widgets ! 0)
                else
                  (case index_of widgets current of
                     None \<Rightarrow> self
                   | Some i \<Rightarrow>
                       (let idx = int i;
                            idx = (if reverse then idx - 1 else idx + 1)
                        in setFocus qt self (widgets ! nat (idx mod int (length widgets)))))))"

datatype key = Key_Tab | Key_Backtab | Key_Escape | Key_Return | Key_Other

text \<open>\<^verbatim>\<open>keyPressEvent\<close>, called with an event of the given key and Shift modifier; any key
  but \<^verbatim>\<open>Key_Tab\<close> goes to the base class, which leaves the dialog as it is. Qt reports a press
  of Shift+Tab as \<^verbatim>\<open>Key_Backtab\<close>.\<close>

definition keyPressEvent :: "toolkit \<Rightarrow> dialog \<Rightarrow> key \<Rightarrow> bool \<Rightarrow> dialog" where
  "keyPressEvent qt self k shift = (if k = Key_Tab then focus_next qt self shift else self)"

subsection \<open>Modal execution\<close>

text \<open>
  What happens while the nested loop runs is a list of events, each the call of one of the
  dialog's methods by a handler, or a change of focus from outside; a handler may call
  \<^verbatim>\<open>exec\<close> again, with the events that call would see. The loop hands the events out in
  order and returns after the handler that made \<^verbatim>\<open>finished\<close> fire; with no event left it
  waits, and \<^verbatim>\<open>exec\<close> does not return.
\<close>

datatype event =
    CallAccept
  | CallReject
  | CallDone int
  | CloseEvent
  | KeyPress key bool
  | FocusChanged "nat option"
  | CallExec "event list"

datatype 'a outcome = Returned 'a dialog | Blocked dialog

fun state_of :: "'a outcome \<Rightarrow> dialog" where
  "state_of (Returned r s) = s"
| "state_of (Blocked s) = s"

fun returned_value :: "'a outcome \<Rightarrow> 'a option" where
  "returned_value (Returned r s) = Some r"
| "returned_value (Blocked s) = None"

text \<open>\<^verbatim>\<open>exec\<close> up to the call of \<^verbatim>\<open>QEventLoop.exec()\<close> (lines 354 to 367), where the loop
  starts to run, and from its return on (lines 369 to 376). The parent is disabled at line
  355, before the focus widget is read at line 357; lines 362 to 365 centre, show, raise and
  activate the dialog.\<close>

definition exec_enter :: "toolkit \<Rightarrow> dialog \<Rightarrow> dialog" where
  "exec_enter qt self =
     (let self = (if parent self \<noteq> None
                  then self\<lparr>parent_enabled := False,
                            focus_widget := qt (SetParentEnabled False) self\<rparr>
                  else self);
          self = self\<lparr>previous_focus := focus_widget self\<rparr>;
          self = self\<lparr>event_loop := Some (loops_created self),
                      loops_created := loops_created self + 1, loop_quit := False\<rparr>;
          self = self\<lparr>shown := True, focus_widget := qt ShowDialog self\<rparr>
      in self\<lparr>loops_running := loops_running self + 1,
              loops_peak := max (loops_peak self) (loops_running self + 1)\<rparr>)"

definition exec_leave :: "toolkit \<Rightarrow> dialog \<Rightarrow> dialog" where
  "exec_leave qt self =
     (let self = self\<lparr>loops_running := loops_running self - 1\<rparr>;
          self = (if parent self \<noteq> None
                  then (let self = self\<lparr>parent_enabled := True,
                                        focus_widget := qt (SetParentEnabled True) self\<rparr>
                        in self\<lparr>focus_widget := qt ActivateParent self\<rparr>)
                  else self);
          self = (case previous_focus self of
                    Some w \<Rightarrow> setFocus qt self w
                  | None \<Rightarrow> self)
      in self\<lparr>event_loop := None\<rparr>)"

function exec :: "toolkit \<Rightarrow> dialog \<Rightarrow> event list \<Rightarrow> int outcome"
  and process_events :: "toolkit \<Rightarrow> dialog \<Rightarrow> event list \<Rightarrow> unit outcome"
  and dispatch :: "toolkit \<Rightarrow> dialog \<Rightarrow> event \<Rightarrow> unit outcome"
where
  "exec qt self evs =
     (if event_loop self \<noteq> None then Returned (result self) self
      else
        (case process_events qt (exec_enter qt self) evs of
           Blocked self \<Rightarrow> Blocked self
         | Returned _ self \<Rightarrow> Returned (result (exec_leave qt self)) (exec_leave qt self)))"
| "process_events qt self [] = Blocked self"
| "process_events qt self (e # es) =
     (case dispatch qt self e of
        Blocked self \<Rightarrow> Blocked self
      | Returned _ self \<Rightarrow>
          if loop_quit self then Returned () self else process_events qt self es)"
| "dispatch qt self CallAccept = Returned () (accept self)"
| "dispatch qt self CallReject = Returned () (reject self)"
| "dispatch qt self (CallDone r) = Returned () (dialog_done self r)"
| "dispatch qt self CloseEvent = Returned () (closeEvent self)"
| "dispatch qt self (KeyPress k shift) = Returned () (keyPressEvent qt self k shift)"
| "dispatch qt self (FocusChanged f) = Returned () (self\<lparr>focus_widget := f\<rparr>)"
| "dispatch qt self (CallExec evs) =
     (case exec qt self evs of
        Blocked self \<Rightarrow> Blocked self
      | Returned _ self \<Rightarrow> Returned () self)"
  by pat_completeness auto
termination
  by (relation "measure (\<lambda>x. case x of
        Inl (qt, self, evs) \<Rightarrow> 2 * size_list size evs + 2
      | Inr (Inl (qt, self, evs)) \<Rightarrow> 2 * size_list size evs + 1
      | Inr (Inr (qt, self, e)) \<Rightarrow> 2 * size e + 1)") auto

text \<open>The events that dismiss the dialog, and the result code each one stores.\<close>

fun dismisses :: "event \<Rightarrow> bool" where
  "dismisses CallAccept = True"
| "dismisses CallReject = True"
| "dismisses (CallDone r) = True"
| "dismisses CloseEvent = True"
| "dismisses (KeyPress k shift) = False"
| "dismisses (FocusChanged f) = False"
| "dismisses (CallExec evs) = False"

fun result_code :: "event \<Rightarrow> int" where
  "result_code CallAccept = ACCEPTED"
| "result_code (CallDone r) = r"
| "result_code _ = REJECTED"

text \<open>The event loops of a dialog are in order when one loop runs exactly while
  \<^verbatim>\<open>_event_loop\<close> is set, none runs otherwise, and no two ever ran at once.\<close>

definition loops_ok :: "dialog \<Rightarrow> bool" where
  "loops_ok self =
     (loops_running self = (if event_loop self = None then 0 else 1) \<and> loops_peak self \<le> 1)"




section \<open>Properties of the window\<close>

lemma mem_detect_edges: "e \<in> detect_edges w h x y \<longleftrightarrow> within_margin w h x y e"
  by (cases e) (auto simp: detect_edges_def RESIZE_MARGIN_def)

lemma detect_edges_margin: "detect_edges w h x y = margin_edges w h x y"
  unfolding margin_edges_def using mem_detect_edges by blast

lemma cursor_for_single: "cursor_for {a} = Some (directional_cursor a)"
  by (cases a) (auto simp: cursor_for_def directional_cursor_def)

lemma cursor_for_corner: "adjacent a b \<Longrightarrow> cursor_for {a, b} = Some (diagonal_cursor a b)"
  by (cases a; cases b) (auto simp: cursor_for_def diagonal_cursor_def adjacent_def insert_commute)

lemma cursor_for_many: "3 \<le> card S \<Longrightarrow> cursor_for S = None"
  by (auto simp: cursor_for_def card_insert_if split: if_splits)

lemma cursor_for_empty: "cursor_for {} = None"
  by (simp add: cursor_for_def)

text \<open>
  C4, as stated, fails: a pointer-move on a maximized window returns before the edge set is
  touched, so a set stored before maximizing stays. Hovering the left border, maximizing and
  moving the pointer again leaves \<open>{LeftEdge}\<close> stored in a maximized window.
\<close>

theorem C4_stale_edges_counterexample:
  "isMaximized (window_run (init_window None 1100 700)
      [MouseMove (0, 300), ToggleMaximize, MouseMove (500, 300)]) \<and>
   resize_edges (window_run (init_window None 1100 700)
      [MouseMove (0, 300), ToggleMaximize, MouseMove (500, 300)]) \<noteq> {}"
  by (simp add: window_run_def init_window_def Let_def mouseMoveEvent_def toggle_maximize_def
      detect_edges_def RESIZE_MARGIN_def cursor_for_def)

text \<open>
  C4, amended: a pointer-move on a maximized window clears the cursor and leaves the stored
  resize-edge set as it was; a pointer-move on a window that is not maximized recomputes the
  stored set as the set of edges whose margin holds the pointer.
\<close>

theorem C4_mouse_move_edges:
  "(isMaximized self \<longrightarrow>
      resize_edges (mouseMoveEvent self pos) = resize_edges self \<and>
      cursor (mouseMoveEvent self pos) = None) \<and>
   (\<not> isMaximized self \<longrightarrow>
      resize_edges (mouseMoveEvent self pos) =
        margin_edges (width self) (height self) (fst pos) (snd pos))"
  by (simp add: mouseMoveEvent_def Let_def detect_edges_margin)

theorem C4_mouse_move_edges_witness:
  "isMaximized ((init_window (Some ''A'') 1100 700)\<lparr>isMaximized := True, resize_edges := {LeftEdge}\<rparr>) \<and>
   resize_edges (mouseMoveEvent
      ((init_window (Some ''A'') 1100 700)\<lparr>isMaximized := True, resize_edges := {LeftEdge}\<rparr>) (500, 300))
     = {LeftEdge} \<and>
   \<not> isMaximized (init_window (Some ''A'') 1100 700) \<and>
   resize_edges (mouseMoveEvent (init_window (Some ''A'') 1100 700) (1095, 3)) = {TopEdge, RightEdge}"
proof -
  have m: "isMaximized ((init_window (Some ''A'') 1100 700)\<lparr>isMaximized := True, resize_edges := {LeftEdge}\<rparr>)"
    by simp
  have n: "\<not> isMaximized (init_window (Some ''A'') 1100 700)"
    by (simp add: init_window_def Let_def)
  have e: "margin_edges 1100 700 1095 3 = {TopEdge, RightEdge}"
    by (simp add: detect_edges_margin [symmetric] detect_edges_def RESIZE_MARGIN_def insert_commute)
  from C4_mouse_move_edges
    [of "(init_window (Some ''A'') 1100 700)\<lparr>isMaximized := True, resize_edges := {LeftEdge}\<rparr>" "(500, 300)"]
    C4_mouse_move_edges [of "init_window (Some ''A'') 1100 700" "(1095, 3)"] m n e
  show ?thesis
    by (simp add: init_window_def Let_def)
qed

text \<open>
  C5: on a window that is not maximized, a pointer-move stores exactly the edges whose 8 px
  margin holds the pointer. One such edge gives the horizontal cursor for left or right and
  the vertical cursor for top or bottom; two adjacent edges give the diagonal cursor of that
  corner; no edge gives the default cursor; three or more edges give no cursor either.
\<close>

theorem C5_edges_and_cursor:
  assumes "\<not> isMaximized self"
  shows "resize_edges (mouseMoveEvent self (x, y)) = margin_edges (width self) (height self) x y \<and>
    (margin_edges (width self) (height self) x y = {a} \<longrightarrow>
       cursor (mouseMoveEvent self (x, y)) = Some (directional_cursor a)) \<and>
    (margin_edges (width self) (height self) x y = {a, b} \<and> adjacent a b \<longrightarrow>
       cursor (mouseMoveEvent self (x, y)) = Some (diagonal_cursor a b)) \<and>
    (margin_edges (width self) (height self) x y = {} \<longrightarrow>
       cursor (mouseMoveEvent self (x, y)) = None) \<and>
    (3 \<le> card (margin_edges (width self) (height self) x y) \<longrightarrow>
       cursor (mouseMoveEvent self (x, y)) = None)"
  using assms
  by (simp add: mouseMoveEvent_def Let_def detect_edges_margin cursor_for_single
      cursor_for_corner cursor_for_many cursor_for_empty)

lemma margin_edges_eval:
  "margin_edges w h x y =
     (if x \<le> 8 then {LeftEdge} else {}) \<union> (if x \<ge> w - 8 then {RightEdge} else {}) \<union>
     (if y \<le> 8 then {TopEdge} else {}) \<union> (if y \<ge> h - 8 then {BottomEdge} else {})"
  by (auto simp: detect_edges_margin [symmetric] detect_edges_def RESIZE_MARGIN_def)

theorem C5_edges_and_cursor_witness:
  "\<not> isMaximized (init_window (Some ''A'') 1100 700) \<and>
   margin_edges 1100 700 3 300 = {LeftEdge} \<and>
   resize_edges (mouseMoveEvent (init_window (Some ''A'') 1100 700) (3, 300)) = {LeftEdge} \<and>
   cursor (mouseMoveEvent (init_window (Some ''A'') 1100 700) (3, 300)) = Some SizeHorCursor \<and>
   margin_edges 1100 700 1095 697 = {BottomEdge, RightEdge} \<and> adjacent BottomEdge RightEdge \<and>
   cursor (mouseMoveEvent (init_window (Some ''A'') 1100 700) (1095, 697)) = Some SizeFDiagCursor \<and>
   margin_edges 1100 700 500 300 = {} \<and>
   cursor (mouseMoveEvent (init_window (Some ''A'') 1100 700) (500, 300)) = None \<and>
   \<not> isMaximized (init_window (Some ''A'') 10 100) \<and>
   3 \<le> card (margin_edges 10 100 5 3) \<and>
   cursor (mouseMoveEvent (init_window (Some ''A'') 10 100) (5, 3)) = None"
proof -
  have n: "\<not> isMaximized (init_window (Some ''A'') 1100 700)" "\<not> isMaximized (init_window (Some ''A'') 10 100)"
    by (simp_all add: init_window_def Let_def)
  have wh: "width (init_window (Some ''A'') 1100 700) = 1100" "height (init_window (Some ''A'') 1100 700) = 700"
    "width (init_window (Some ''A'') 10 100) = 10" "height (init_window (Some ''A'') 10 100) = 100"
    by (simp_all add: init_window_def Let_def)
  have e1: "margin_edges 1100 700 3 300 = {LeftEdge}"
    and e2: "margin_edges 1100 700 1095 697 = {BottomEdge, RightEdge}"
    and e0: "margin_edges 1100 700 500 300 = {}"
    and e3: "margin_edges 10 100 5 3 = {LeftEdge, RightEdge, TopEdge}"
    by (auto simp: margin_edges_eval)
  have c3: "3 \<le> card (margin_edges 10 100 5 3)"
    by (simp add: e3)
  have adj: "adjacent BottomEdge RightEdge"
    by (simp add: adjacent_def)
  note t1 = C5_edges_and_cursor [OF n(1), of 3 300 LeftEdge BottomEdge, unfolded wh]
  note t2 = C5_edges_and_cursor [OF n(1), of 1095 697 BottomEdge RightEdge, unfolded wh]
  note t0 = C5_edges_and_cursor [OF n(1), of 500 300 LeftEdge BottomEdge, unfolded wh]
  note t3 = C5_edges_and_cursor [OF n(2), of 5 3 LeftEdge BottomEdge, unfolded wh]
  show ?thesis
    using n e1 e2 e0 c3 adj t1 t2 t0 t3
    by (simp add: directional_cursor_def diagonal_cursor_def)
qed

text \<open>
  C6: a press starts the interactive resize exactly when the button is the left one, the
  stored edge set is non-empty and the window is not maximized, and then with the stored
  edges; every other press goes to the default handling, so on a maximized window no press
  starts a resize.
\<close>

theorem C6_press_starts_resize:
  "((\<exists>es. mousePressEvent self button = StartSystemResize es) \<longleftrightarrow>
      button = LeftButton \<and> resize_edges self \<noteq> {} \<and> \<not> isMaximized self) \<and>
   (mousePressEvent self button = StartSystemResize (resize_edges self) \<or>
      mousePressEvent self button = DefaultPress) \<and>
   (isMaximized self \<longrightarrow> mousePressEvent self button = DefaultPress)"
  by (simp add: mousePressEvent_def)

theorem C6_press_starts_resize_witness:
  "isMaximized ((init_window (Some ''A'') 1100 700)\<lparr>isMaximized := True, resize_edges := {LeftEdge}\<rparr>) \<and>
   mousePressEvent ((init_window (Some ''A'') 1100 700)\<lparr>isMaximized := True, resize_edges := {LeftEdge}\<rparr>)
     LeftButton = DefaultPress \<and>
   mousePressEvent ((init_window (Some ''A'') 1100 700)\<lparr>resize_edges := {LeftEdge}\<rparr>) LeftButton
     = StartSystemResize {LeftEdge}"
proof -
  have m: "isMaximized ((init_window (Some ''A'') 1100 700)\<lparr>isMaximized := True, resize_edges := {LeftEdge}\<rparr>)"
    by simp
  have n: "\<not> isMaximized ((init_window (Some ''A'') 1100 700)\<lparr>resize_edges := {LeftEdge}\<rparr>)"
    by (simp add: init_window_def Let_def)
  from C6_press_starts_resize
    [of "(init_window (Some ''A'') 1100 700)\<lparr>isMaximized := True, resize_edges := {LeftEdge}\<rparr>" LeftButton]
    C6_press_starts_resize [of "(init_window (Some ''A'') 1100 700)\<lparr>resize_edges := {LeftEdge}\<rparr>" LeftButton]
    m n
  show ?thesis
    by auto
qed

text \<open>
  C8: \<^verbatim>\<open>setAppName(s)\<close> returns normally for every window and every string; afterwards the
  window title is \<open>s\<close>, an attached \<^verbatim>\<open>TitleBar\<close> shows the label \<open>s\<close>, and a window
  without a title bar still has none.
\<close>

theorem C8_setAppName:
  "\<exists>self'. setAppName self s = Inr self' \<and> window_title self' = s \<and> app_name self' = s \<and>
     (case title_bar self of
        Some (TitleBar old) \<Rightarrow> title_bar self' = Some (TitleBar s)
      | Some PlainWidget \<Rightarrow> title_bar self' = Some PlainWidget
      | None \<Rightarrow> title_bar self' = None)"
  by (cases "title_bar self" rule: hasattr_setTitle.cases) (simp_all add: setAppName_def)

text \<open>
  C9: on \<^verbatim>\<open>win32\<close> the identifier handed to the platform is \<^verbatim>\<open>com.projectironman.\<close>
  followed by the lowercased name without its spaces; on any other platform nothing happens;
  and when the platform call raises an exception, the method returns normally with the window
  unchanged.
\<close>

theorem C9_windows_app_id:
  "(platform = ''win32'' \<and> shell32 (make_app_id lower (app_name self)) = CallReturns hr \<longrightarrow>
      apply_windows_app_id lower platform shell32 self =
        Inr (self\<lparr>app_user_model_id := Some (make_app_id lower (app_name self))\<rparr>)) \<and>
   (platform \<noteq> ''win32'' \<longrightarrow> apply_windows_app_id lower platform shell32 self = Inr self) \<and>
   (platform = ''win32'' \<and>
      shell32 (make_app_id lower (app_name self)) = CallRaises (ExceptionInstance e) \<longrightarrow>
      apply_windows_app_id lower platform shell32 self = Inr self)"
  by (simp add: apply_windows_app_id_def make_app_id_def)

lemma make_app_id_example:
  "make_app_id ascii_lower ''My Cool App'' = ''com.projectironman.mycoolapp''"
  by code_simp

theorem C9_windows_app_id_witness:
  "apply_windows_app_id ascii_lower ''win32'' (\<lambda>_. CallReturns 0) (init_window (Some ''My Cool App'') 1100 700)
     = Inr ((init_window (Some ''My Cool App'') 1100 700)
              \<lparr>app_user_model_id := Some ''com.projectironman.mycoolapp''\<rparr>) \<and>
   apply_windows_app_id ascii_lower ''linux'' (\<lambda>_. CallReturns 0) (init_window (Some ''My Cool App'') 1100 700)
     = Inr (init_window (Some ''My Cool App'') 1100 700) \<and>
   apply_windows_app_id ascii_lower ''win32'' (\<lambda>_. CallRaises (ExceptionInstance ''OSError''))
       (init_window (Some ''My Cool App'') 1100 700)
     = Inr (init_window (Some ''My Cool App'') 1100 700)"
proof -
  have nm: "app_name (init_window (Some ''My Cool App'') 1100 700) = ''My Cool App''"
    by (simp add: init_window_def Let_def)
  have p: "''linux'' \<noteq> ''win32''"
    by simp
  from C9_windows_app_id
      [of "''win32''" "\<lambda>_. CallReturns 0" ascii_lower "init_window (Some ''My Cool App'') 1100 700" 0 "''x''"]
    C9_windows_app_id
      [of "''linux''" "\<lambda>_. CallReturns 0" ascii_lower "init_window (Some ''My Cool App'') 1100 700" 0 "''x''"]
    C9_windows_app_id
      [of "''win32''" "\<lambda>_. CallRaises (ExceptionInstance ''OSError'')" ascii_lower
          "init_window (Some ''My Cool App'') 1100 700" 0 "''OSError''"]
    p
  show ?thesis
    unfolding nm make_app_id_example by simp
qed

section \<open>Properties of the dialog\<close>

subsection \<open>The nested event loop\<close>

lemma exec_idle:
  "event_loop self = None \<Longrightarrow> exec qt self evs =
     (case process_events qt (exec_enter qt self) evs of
        Blocked s \<Rightarrow> Blocked s
      | Returned _ s \<Rightarrow> Returned (result (exec_leave qt s)) (exec_leave qt s))"
  by simp

lemma exec_enter_running:
  "event_loop (exec_enter qt self) \<noteq> None" "\<not> loop_quit (exec_enter qt self)"
  by (simp_all add: exec_enter_def Let_def)

lemma exec_enter_parent:
  "parent (exec_enter qt self) = parent self"
  by (simp add: exec_enter_def Let_def)

lemma exec_leave_result: "result (exec_leave qt self) = result self"
  by (simp add: exec_leave_def setFocus_def Let_def split: option.splits)

lemma exec_leave_parent_enabled:
  "parent self \<noteq> None \<Longrightarrow> parent_enabled (exec_leave qt self)"
  by (simp add: exec_leave_def setFocus_def Let_def split: option.splits)

lemma focus_next_only_focus:
  "focus_next qt self reverse = self\<lparr>focus_widget := focus_widget (focus_next qt self reverse)\<rparr>"
  by (simp add: focus_next_def setFocus_def Let_def split: option.splits)

lemma dispatch_quiet:
  "event_loop self \<noteq> None \<Longrightarrow> \<not> dismisses e \<Longrightarrow>
     \<exists>f. dispatch qt self e = Returned () (self\<lparr>focus_widget := f\<rparr>)"
proof (cases e)
  case (KeyPress k shift)
  show ?thesis
  proof (cases "k = Key_Tab")
    case True
    with KeyPress have "dispatch qt self e =
        Returned () (self\<lparr>focus_widget := focus_widget (focus_next qt self shift)\<rparr>)"
      using focus_next_only_focus [where qt = qt and self = self and reverse = shift]
      by (simp add: keyPressEvent_def)
    then show ?thesis by blast
  next
    case False
    with KeyPress have "dispatch qt self e = Returned () (self\<lparr>focus_widget := focus_widget self\<rparr>)"
      by (simp add: keyPressEvent_def)
    then show ?thesis by blast
  qed
next
  case (CallExec evs)
  assume "event_loop self \<noteq> None"
  with CallExec have "dispatch qt self e = Returned () (self\<lparr>focus_widget := focus_widget self\<rparr>)"
    by auto
  then show ?thesis by blast
next
  case (FocusChanged f)
  then show ?thesis by auto
qed auto

lemma dispatch_dismiss:
  "event_loop self \<noteq> None \<Longrightarrow> dismisses d \<Longrightarrow>
     dispatch qt self d =
       Returned () (self\<lparr>result := result_code d, shown := False, loop_quit := True\<rparr>)"
  by (cases d) (auto simp: accept_def reject_def closeEvent_def dialog_done_def finished_emit_def)

lemma process_until_dismissed:
  "event_loop self \<noteq> None \<Longrightarrow> \<not> loop_quit self \<Longrightarrow> \<forall>e\<in>set pre. \<not> dismisses e \<Longrightarrow>
     \<exists>f. \<forall>d rest. dismisses d \<longrightarrow> process_events qt self (pre @ d # rest) =
       Returned () (self\<lparr>result := result_code d, shown := False, focus_widget := f,
         loop_quit := True\<rparr>)"
proof (induction pre arbitrary: self)
  case Nil
  then show ?case
    by (auto simp: dispatch_dismiss intro: exI [of _ "focus_widget self"])
next
  case (Cons e pre)
  from Cons.prems obtain f where
    f: "dispatch qt self e = Returned () (self\<lparr>focus_widget := f\<rparr>)"
    using dispatch_quiet [where self = self and e = e and qt = qt] by auto
  have "\<exists>g. \<forall>d rest. dismisses d \<longrightarrow>
       process_events qt (self\<lparr>focus_widget := f\<rparr>) (pre @ d # rest) =
       Returned () (self\<lparr>focus_widget := f\<rparr>\<lparr>result := result_code d, shown := False,
         focus_widget := g, loop_quit := True\<rparr>)"
    using Cons.prems by (intro Cons.IH) auto
  then show ?case
    using f Cons.prems by auto
qed

lemma exec_dismissed:
  assumes idle: "event_loop self = None"
    and pre: "\<forall>e\<in>set pre. \<not> dismisses e"
  shows "\<exists>f. \<forall>d rest. dismisses d \<longrightarrow> exec qt self (pre @ d # rest) =
     Returned (result_code d)
       (exec_leave qt ((exec_enter qt self)\<lparr>result := result_code d, shown := False,
          focus_widget := f, loop_quit := True\<rparr>))"
proof -
  from process_until_dismissed [where self = "exec_enter qt self" and qt = qt,
      OF exec_enter_running pre]
  obtain f where f: "\<And>d rest. dismisses d \<Longrightarrow>
       process_events qt (exec_enter qt self) (pre @ d # rest) =
       Returned () ((exec_enter qt self)\<lparr>result := result_code d, shown := False,
          focus_widget := f, loop_quit := True\<rparr>)"
    by blast
  have "exec qt self (pre @ d # rest) =
     Returned (result_code d)
       (exec_leave qt ((exec_enter qt self)\<lparr>result := result_code d, shown := False,
          focus_widget := f, loop_quit := True\<rparr>))" if "dismisses d" for d rest
    unfolding exec_idle [OF idle] f [OF that]
    by (simp add: exec_leave_result)
  then show ?thesis
    by blast
qed

lemma dispatch_running:
  "event_loop self \<noteq> None \<Longrightarrow>
     \<exists>s. dispatch qt self e = Returned () s \<and> event_loop s = event_loop self \<and>
       loops_running s = loops_running self \<and> loops_peak s = loops_peak self \<and>
       loops_created s = loops_created self"
  by (cases e)
    (auto simp: accept_def reject_def closeEvent_def dialog_done_def finished_emit_def
      keyPressEvent_def focus_next_def setFocus_def Let_def split: option.splits)

lemma process_running:
  "event_loop self \<noteq> None \<Longrightarrow>
     event_loop (state_of (process_events qt self evs)) = event_loop self \<and>
     loops_running (state_of (process_events qt self evs)) = loops_running self \<and>
     loops_peak (state_of (process_events qt self evs)) = loops_peak self \<and>
     loops_created (state_of (process_events qt self evs)) = loops_created self"
proof (induction evs arbitrary: self)
  case Nil
  then show ?case by simp
next
  case (Cons e evs)
  from dispatch_running [OF Cons.prems, where qt = qt and e = e] obtain s where
    s: "dispatch qt self e = Returned () s" "event_loop s = event_loop self"
      "loops_running s = loops_running self" "loops_peak s = loops_peak self"
      "loops_created s = loops_created self"
    by blast
  with Cons.prems have "event_loop s \<noteq> None" by simp
  from Cons.IH [OF this] s show ?case
    by simp
qed

lemma exec_loops_ok: "loops_ok self \<Longrightarrow> loops_ok (state_of (exec qt self evs))"
proof (cases "event_loop self")
  case (Some l)
  assume "loops_ok self"
  with Some show ?thesis by simp
next
  case None
  assume ok: "loops_ok self"
  from process_running [where self = "exec_enter qt self" and qt = qt and evs = evs,
      OF exec_enter_running(1)] ok None show ?thesis
    unfolding exec_idle [OF None]
    by (cases "process_events qt (exec_enter qt self) evs")
      (auto simp: loops_ok_def exec_enter_def exec_leave_def setFocus_def Let_def
        split: option.splits)
qed

text \<open>
  C1: in a run of \<^verbatim>\<open>exec\<close> on a dialog that is not yet running, whatever happens before the
  first dismissal, \<^verbatim>\<open>exec\<close> returns \<^verbatim>\<open>ACCEPTED\<close> = 1 when \<^verbatim>\<open>accept()\<close> dismisses the dialog and
  \<^verbatim>\<open>REJECTED\<close> = 0 when \<^verbatim>\<open>reject()\<close> does, and a close event ends the run exactly as
  \<^verbatim>\<open>reject()\<close> does, in the returned value and in the state left behind.
\<close>

theorem C1_exec_result:
  assumes "event_loop self = None" and "\<forall>e\<in>set pre. \<not> dismisses e"
  shows "returned_value (exec qt self (pre @ CallAccept # rest)) = Some ACCEPTED \<and> ACCEPTED = 1 \<and>
         returned_value (exec qt self (pre @ CallReject # rest)) = Some REJECTED \<and> REJECTED = 0 \<and>
         returned_value (exec qt self (pre @ CloseEvent # rest)) = Some REJECTED \<and>
         exec qt self (pre @ CloseEvent # rest) = exec qt self (pre @ CallReject # rest)"
proof -
  from exec_dismissed [OF assms] obtain f where
    f: "\<And>d rest. dismisses d \<Longrightarrow> exec qt self (pre @ d # rest) =
     Returned (result_code d)
       (exec_leave qt ((exec_enter qt self)\<lparr>result := result_code d, shown := False,
          focus_widget := f, loop_quit := True\<rparr>))"
    by blast
  show ?thesis
    using f [of CallAccept rest] f [of CallReject rest] f [of CloseEvent rest]
    by (simp add: ACCEPTED_def REJECTED_def)
qed

theorem C1_exec_result_witness:
  "event_loop (init_dialog None [] None True) = None \<and>
   \<not> dismisses (KeyPress Key_Tab False) \<and> \<not> dismisses (CallExec [CallReject]) \<and>
   \<not> dismisses (FocusChanged (Some 3)) \<and>
   returned_value (exec focus_unmoved (init_dialog None [] None True)
     ([KeyPress Key_Tab False, CallExec [CallReject], FocusChanged (Some 3)]
        @ CallAccept # [CallReject])) = Some 1 \<and>
   returned_value (exec focus_unmoved (init_dialog None [] None True)
     ([KeyPress Key_Tab False, CallExec [CallReject], FocusChanged (Some 3)]
        @ CloseEvent # [CallReject])) = Some 0"
proof -
  have idle: "event_loop (init_dialog None [] None True) = None"
    by (simp add: init_dialog_def)
  have quiet: "\<forall>e\<in>set [KeyPress Key_Tab False, CallExec [CallReject], FocusChanged (Some 3)].
      \<not> dismisses e"
    by simp
  from C1_exec_result [OF idle quiet, where qt = focus_unmoved and rest = "[CallReject]"] idle
  show ?thesis
    by (simp add: ACCEPTED_def REJECTED_def)
qed

text \<open>
  C2: \<^verbatim>\<open>exec\<close> on a dialog whose loop exists returns the stored result at once and leaves
  the whole state as it was, so no loop is constructed or started; this is also what a
  handler's call of \<^verbatim>\<open>exec\<close> from inside the loop does. Through any run of \<^verbatim>\<open>exec\<close>, with
  any calls nested in it, one loop runs exactly while \<^verbatim>\<open>_event_loop\<close> is set and never two
  at once.
\<close>

theorem C2_exec_reentrant:
  "(event_loop self \<noteq> None \<longrightarrow>
      exec qt self evs = Returned (result self) self \<and>
      dispatch qt self (CallExec evs) = Returned () self) \<and>
   (loops_ok self \<longrightarrow> loops_ok (state_of (exec qt self evs)))"
  using exec_loops_ok [where self = self and qt = qt and evs = evs] by simp

theorem C2_exec_reentrant_witness:
  "event_loop (exec_enter focus_unmoved (init_dialog None [] None True)) \<noteq> None \<and>
   exec focus_unmoved (exec_enter focus_unmoved (init_dialog None [] None True)) [CallAccept] =
     Returned 0 (exec_enter focus_unmoved (init_dialog None [] None True)) \<and>
   loops_ok (init_dialog None [] None True) \<and>
   loops_ok (state_of (exec focus_unmoved (init_dialog None [] None True)
     [CallExec [CallAccept], CallAccept, CallReject]))"
proof -
  have r: "event_loop (exec_enter focus_unmoved (init_dialog None [] None True)) \<noteq> None"
    by (rule exec_enter_running)
  have res: "result (exec_enter focus_unmoved (init_dialog None [] None True)) = 0"
    by (simp add: exec_enter_def init_dialog_def REJECTED_def)
  have ok: "loops_ok (init_dialog None [] None True)"
    by (simp add: loops_ok_def init_dialog_def)
  from C2_exec_reentrant [where self = "exec_enter focus_unmoved (init_dialog None [] None True)"
      and qt = focus_unmoved and evs = "[CallAccept]"]
    C2_exec_reentrant [where self = "init_dialog None [] None True" and qt = focus_unmoved
      and evs = "[CallExec [CallAccept], CallAccept, CallReject]"] r res ok
  show ?thesis
    by simp
qed

text \<open>
  C3, as stated, fails: \<^verbatim>\<open>exec\<close> does not record the parent's enabled state; it disables
  the parent on entry and enables it on return. A parent that was disabled before \<^verbatim>\<open>exec\<close>
  is enabled afterwards.
\<close>

theorem C3_parent_enabled_counterexample:
  "parent (init_dialog (Some 1) [] (Some 5) False) = Some 1 \<and>
   returned_value (exec focus_unmoved (init_dialog (Some 1) [] (Some 5) False) [CallAccept])
     = Some 1 \<and>
   parent_enabled (state_of (exec focus_unmoved (init_dialog (Some 1) [] (Some 5) False)
       [CallAccept]))
     \<noteq> parent_enabled (init_dialog (Some 1) [] (Some 5) False)"
  by (simp add: init_dialog_def exec_enter_def exec_leave_def setFocus_def accept_def
      dialog_done_def finished_emit_def ACCEPTED_def focus_unmoved_def Let_def)

text \<open>
  C3, amended: for every dialog with a parent P, after the dialog is dismissed \<^verbatim>\<open>exec\<close>
  returns with P enabled, whatever P's state was before the call, so P's state is the one
  before the call exactly when P was enabled then.
\<close>

theorem C3_parent_enabled_on_return:
  assumes "event_loop self = None" and "parent self \<noteq> None"
    and "\<forall>e\<in>set pre. \<not> dismisses e" and "dismisses d"
  shows "\<exists>r s. exec qt self (pre @ d # rest) = Returned r s \<and> parent_enabled s \<and>
           (parent_enabled s = parent_enabled self \<longleftrightarrow> parent_enabled self)"
proof -
  from exec_dismissed [OF assms(1,3)] assms(4) obtain f where
    e: "exec qt self (pre @ d # rest) =
     Returned (result_code d)
       (exec_leave qt ((exec_enter qt self)\<lparr>result := result_code d, shown := False,
          focus_widget := f, loop_quit := True\<rparr>))"
    by blast
  have "parent ((exec_enter qt self)\<lparr>result := result_code d, shown := False,
          focus_widget := f, loop_quit := True\<rparr>) \<noteq> None"
    using assms(2) by (simp add: exec_enter_parent)
  then have "parent_enabled (exec_leave qt ((exec_enter qt self)\<lparr>result := result_code d,
      shown := False, focus_widget := f, loop_quit := True\<rparr>))"
    by (rule exec_leave_parent_enabled)
  with e show ?thesis
    by simp
qed

theorem C3_parent_enabled_on_return_witness:
  "event_loop (init_dialog (Some 1) [] (Some 5) True) = None \<and>
   parent (init_dialog (Some 1) [] (Some 5) True) \<noteq> None \<and>
   \<not> dismisses (FocusChanged (Some 9)) \<and> dismisses CallReject \<and>
   (\<exists>r s. exec focus_unmoved (init_dialog (Some 1) [] (Some 5) True)
        ([FocusChanged (Some 9)] @ CallReject # [])
       = Returned r s \<and> parent_enabled s)"
proof -
  have idle: "event_loop (init_dialog (Some 1) [] (Some 5) True) = None"
    and par: "parent (init_dialog (Some 1) [] (Some 5) True) \<noteq> None"
    by (simp_all add: init_dialog_def)
  have quiet: "\<forall>e\<in>set [FocusChanged (Some 9)]. \<not> dismisses e"
    by simp
  have dis: "dismisses CallReject"
    by simp
  have "\<exists>r s. exec focus_unmoved (init_dialog (Some 1) [] (Some 5) True)
        ([FocusChanged (Some 9)] @ CallReject # [])
       = Returned r s \<and> parent_enabled s"
    using C3_parent_enabled_on_return [OF idle par quiet dis, where qt = focus_unmoved
        and rest = "[]"] by blast
  with idle par dis show ?thesis
    by simp
qed

subsection \<open>The focus trap\<close>




lemma focus_next_none: "focusable_widgets self = [] \<Longrightarrow> focus_next qt self reverse = self"
  by (simp add: focus_next_def)



end
